theory Spec2Isabelle
  imports Complex_Main
begin

section \<open>Wire types of the backend (api.ts)\<close>

text \<open>
  The interfaces of the API client, one record per interface.  Field names are the
  source's, with a short prefix where two interfaces share a name (\<open>job_id\<close>,
  \<open>claims\<close>, \<open>status\<close>, ...).  A JavaScript \<open>number\<close> that counts or indexes is an
  \<open>int\<close>, a score is a \<open>real\<close>; an optional field (\<open>x?: T\<close>) is an \<open>option\<close>.
\<close>

datatype ClaimType =
  Type_factual | Type_numeric | Type_temporal | Type_comparative | Type_procedural | Type_conditional

datatype Verdict = Verdict_verified | Verdict_refuted | Verdict_unverifiable | Verdict_partial

datatype JobStatus = Job_queued | Job_running | Job_completed | Job_failed

datatype Recommendation = Rec_supported | Rec_disputed | Rec_supported_with_caution

record ClaimCanonical =
  numbers :: "real list"
  addresses :: "string list"
  urls :: "string list"

record Claim =
  c_id :: string
  c_text :: string
  c_paragraph_index :: int
  c_char_range :: "int \<times> int"
  c_type :: ClaimType
  c_canonical :: ClaimCanonical

record MinerScores =
  accuracy :: real
  omission_risk :: real
  evidence_quality :: real
  governance_relevance :: real
  composite :: real

record MinerResponse =
  miner_id :: string
  claim_id :: string
  verdict :: Verdict
  rationale :: string
  evidence_links :: "string list"
  embedding :: "real list option"
  scores :: MinerScores

record IngestResponse =
  proposal_hash :: string
  canonical_text :: string
  claims :: "Claim list"

record ValidateResponse =
  vr_job_id :: string
  vr_proposal_hash :: string
  vr_status :: JobStatus
  vr_created_at :: string
  vr_estimated_completion :: "string option"

record JobProgress =
  claims_total :: int
  claims_validated :: int
  miners_contacted :: int
  miners_responded :: int

record StatusResponse =
  sr_job_id :: string
  sr_status :: JobStatus
  sr_progress :: JobProgress
  partial_results :: "MinerResponse list"
  sr_started_at :: "string option"
  sr_updated_at :: "string option"
  sr_completed_at :: "string option"
  ready_for_aggregation :: bool

record ClaimAggregation =
  ca_id :: string
  ca_text :: string
  ca_poi_agreement :: real
  ca_mode_verdict :: string
  ca_embedding_dispersion :: real
  ca_pouw_mean :: real
  ca_pouw_ci_95 :: "real \<times> real"
  ca_outliers :: "string list"
  ca_final_recommendation :: Recommendation
  ca_miner_responses :: "MinerResponse list"

record EvidenceBundle =
  eb_proposal_hash :: string
  eb_job_id :: string
  eb_claims :: "ClaimAggregation list"
  eb_overall_poi_agreement :: real
  eb_overall_pouw_score :: real
  eb_overall_ci_95 :: "real \<times> real"
  eb_critical_flags :: "string list"
  eb_timestamp :: string

record AggregateResponse =
  ar_job_id :: string
  evidence_bundle :: EvidenceBundle
  ar_ipfs_cid :: "string option"

record AttestResponse =
  at_job_id :: string
  at_proposal_hash :: string
  at_ipfs_cid :: "string option"
  signature :: string
  signer :: string
  message_hash :: string
  verification_instructions :: "string \<times> string \<times> string \<times> string"

text \<open>
  A rejected request.  The handlers read \<open>err.response?.data?.detail\<close> (App,
  EvidencePanel) or \<open>err.message\<close> (LiveDashboard); either may be missing.
\<close>

record ApiError =
  detail :: "string option"
  message :: "string option"

text \<open>
  JavaScript's \<open>x || d\<close> on an optional string: the default is taken when \<open>x\<close> is
  undefined and also when it is the empty string.
\<close>

definition orElse :: "string option \<Rightarrow> string \<Rightarrow> string" where
  "orElse x d = (case x of None \<Rightarrow> d | Some v \<Rightarrow> if v = [] then d else v)"

section \<open>The App component: state and derived values\<close>

datatype AppStage = Stage_input | Stage_validating | Stage_aggregating | Stage_complete

datatype ClaimStatus = Status_pending | Status_validating | Status_completed

text \<open>
  The value returned by the hook \<open>useJobStream\<close> (imported from
  \<open>./hooks/useJobStream\<close>).  App only reads it: the value is an input of every
  render, and the environment decides when it changes.
\<close>

record StreamState =
  stream_connected :: bool
  stream_minerResponses :: "string \<rightharpoonup> MinerResponse list"
  stream_progress :: JobProgress
  stream_status :: JobStatus

text \<open>The eight \<open>useState\<close> cells of \<open>App\<close>.\<close>

record AppState =
  stage :: AppStage
  proposal :: "IngestResponse option"
  jobId :: "string option"
  evidenceBundle :: "EvidenceBundle option"
  ipfsCid :: "string option"
  error :: "string option"
  polledProgress :: "JobProgress option"
  polledResponses :: "MinerResponse list"

subsection \<open>minerResponses\<close>

text \<open>
  The reduce over \<open>polledResponses\<close> starts from the object literal \<open>{}\<close>, which
  inherits the members of \<open>Object.prototype\<close>.  For a claim id that is one of their
  names, \<open>acc[r.claim_id]\<close> is truthy before anything was stored, the array is not
  created and \<open>.push\<close> is not a function: the render throws a TypeError.
\<close>

datatype JsError = TypeError

definition objectPrototypeKeys :: "string list" where
  "objectPrototypeKeys =
     [''constructor'', ''__defineGetter__'', ''__defineSetter__'', ''hasOwnProperty'',
      ''__lookupGetter__'', ''__lookupSetter__'', ''isPrototypeOf'', ''propertyIsEnumerable'',
      ''toString'', ''valueOf'', ''__proto__'', ''toLocaleString'']"

text \<open>\<open>m.get(k) || []\<close> on a map of arrays.\<close>

definition getOrEmpty :: "(string \<rightharpoonup> 'a list) \<Rightarrow> string \<Rightarrow> 'a list" where
  "getOrEmpty m k = (case m k of None \<Rightarrow> [] | Some xs \<Rightarrow> xs)"

text \<open>The callback of the reduce: create the array on first sight, then push.\<close>

definition groupStep ::
  "(string \<rightharpoonup> MinerResponse list) \<Rightarrow> MinerResponse \<Rightarrow> JsError + (string \<rightharpoonup> MinerResponse list)" where
  "groupStep acc r =
     (if claim_id r \<in> set objectPrototypeKeys then Inl TypeError
      else Inr (acc(claim_id r \<mapsto> getOrEmpty acc (claim_id r) @ [r])))"

fun groupByClaim ::
  "MinerResponse list \<Rightarrow> (string \<rightharpoonup> MinerResponse list) \<Rightarrow> JsError + (string \<rightharpoonup> MinerResponse list)" where
  "groupByClaim [] acc = Inr acc"
| "groupByClaim (r # rs) acc =
     (case groupStep acc r of Inl e \<Rightarrow> Inl e | Inr acc' \<Rightarrow> groupByClaim rs acc')"

text \<open>
  \<open>const minerResponses = stream.connected ? stream.minerResponses : new Map(...)\<close>.
  The map is read only through \<open>.get\<close>, so the order of its entries is not modelled.
\<close>

definition minerResponses ::
  "StreamState \<Rightarrow> MinerResponse list \<Rightarrow> JsError + (string \<rightharpoonup> MinerResponse list)" where
  "minerResponses strm polled =
     (if stream_connected strm then Inr (stream_minerResponses strm)
      else groupByClaim polled Map.empty)"

subsection \<open>getClaimStatuses\<close>

text \<open>The body of the \<open>forEach\<close>: the status stored for one claim id.\<close>

definition claimStatus ::
  "AppStage \<Rightarrow> EvidenceBundle option \<Rightarrow> (string \<rightharpoonup> MinerResponse list) \<Rightarrow> string \<Rightarrow> ClaimStatus" where
  "claimStatus stg bundle mr cid =
     (let responses = getOrEmpty mr cid in
      if stg = Stage_complete \<or>
         (case bundle of None \<Rightarrow> False
          | Some b \<Rightarrow> find (\<lambda>c. ca_id c = cid) (eb_claims b) \<noteq> None)
      then Status_completed
      else if 0 < length responses then Status_validating
      else Status_pending)"

definition getClaimStatuses ::
  "IngestResponse option \<Rightarrow> AppStage \<Rightarrow> EvidenceBundle option \<Rightarrow>
   (string \<rightharpoonup> MinerResponse list) \<Rightarrow> (string \<rightharpoonup> ClaimStatus)" where
  "getClaimStatuses prop stg bundle mr =
     (case prop of
        None \<Rightarrow> Map.empty
      | Some p \<Rightarrow>
          foldl (\<lambda>statuses claim. statuses(c_id claim \<mapsto> claimStatus stg bundle mr (c_id claim)))
            Map.empty (claims p))"

section \<open>The App component: events, handlers and effects\<close>

text \<open>
  JavaScript runs one callback at a time, and an \<open>async\<close> function runs up to its
  next \<open>await\<close> in one piece.  A state of the running application is the rendered
  React state, the hook's current value, the interval registered by the poll effect,
  and the requests that are in flight.  A request in flight carries what its closure
  captured when it was issued: \<open>poll\<close> and \<open>handleValidationComplete\<close> read only
  \<open>jobId\<close> of their render (the setters are stable), so the captured job id is kept.
  The lists of calls record every request ever issued, in order.

  A render whose body throws unmounts the component (there is no error boundary).
  From then on nothing is rendered and no effect runs, but the callbacks of the
  requests in flight still run and still issue their calls.  React drops the state
  updates of an unmounted component; the record goes on noting what the setters were
  given, and \<open>mounted\<close> tells whether anything shows it.
\<close>

record Sys =
  app :: AppState
  stream :: StreamState
  mounted :: bool
  pollInterval :: "string option"
  validateInFlight :: "string list"
  getStatusInFlight :: "string list"
  aggregateInFlight :: "string list"
  getStatusCalls :: "string list"
  aggregateCalls :: "string list"

datatype Event =
    IngestComplete IngestResponse bool
  | ValidateResolved string ValidateResponse
  | ValidateRejected string ApiError
  | StreamRender StreamState
  | IntervalTick
  | GetStatusResolved string StatusResponse
  | GetStatusRejected string ApiError
  | AggregateResolved string AggregateResponse
  | AggregateRejected string ApiError
  | Reset

definition initApp :: AppState where
  "initApp =
     \<lparr>stage = Stage_input, proposal = None, jobId = None, evidenceBundle = None,
      ipfsCid = None, error = None, polledProgress = None, polledResponses = []\<rparr>"

definition initSys :: "StreamState \<Rightarrow> Sys" where
  "initSys strm =
     \<lparr>app = initApp, stream = strm, mounted = True, pollInterval = None, validateInFlight = [],
      getStatusInFlight = [], aggregateInFlight = [], getStatusCalls = [],
      aggregateCalls = []\<rparr>"

subsection \<open>handleValidationComplete\<close>

text \<open>
  Up to the \<open>await\<close>: return when the captured job id is falsy (null or the empty
  string), else request the stage \<open>aggregating\<close> and issue the aggregate call.  The
  current stage is not read.
\<close>

definition handleValidationComplete :: "string option \<Rightarrow> Sys \<Rightarrow> Sys" where
  "handleValidationComplete cj s =
     (case cj of
        None \<Rightarrow> s
      | Some j \<Rightarrow>
          if j = [] then s
          else s\<lparr>app := (app s)\<lparr>stage := Stage_aggregating\<rparr>,
                 aggregateInFlight := aggregateInFlight s @ [j],
                 aggregateCalls := aggregateCalls s @ [j]\<rparr>)"

text \<open>After the \<open>await\<close>: the \<open>try\<close> branch and the \<open>catch\<close> branch.\<close>

definition aggregateResolved :: "AggregateResponse \<Rightarrow> Sys \<Rightarrow> Sys" where
  "aggregateResolved r s =
     s\<lparr>app := (app s)\<lparr>evidenceBundle := Some (evidence_bundle r),
                        ipfsCid := ar_ipfs_cid r,
                        stage := Stage_complete\<rparr>\<rparr>"

definition aggregateRejected :: "ApiError \<Rightarrow> Sys \<Rightarrow> Sys" where
  "aggregateRejected e s =
     s\<lparr>app := (app s)\<lparr>error := Some (orElse (detail e) ''Failed to aggregate results''),
                        stage := Stage_validating\<rparr>\<rparr>"

subsection \<open>poll\<close>

text \<open>\<open>poll()\<close> up to its \<open>await\<close>: issue \<open>getStatus\<close> for the captured job id.\<close>

definition pollCall :: "string \<Rightarrow> Sys \<Rightarrow> Sys" where
  "pollCall j s =
     s\<lparr>getStatusInFlight := getStatusInFlight s @ [j],
       getStatusCalls := getStatusCalls s @ [j]\<rparr>"

text \<open>
  After the \<open>await\<close>: store progress and partial results, and on \<open>completed\<close> call the
  captured \<open>handleValidationComplete\<close>.  The \<open>catch\<close> branch only logs to the console.
\<close>

definition pollResolved :: "string \<Rightarrow> StatusResponse \<Rightarrow> Sys \<Rightarrow> Sys" where
  "pollResolved j r s =
     (let s1 = s\<lparr>app := (app s)\<lparr>polledProgress := Some (sr_progress r),
                                  polledResponses := partial_results r\<rparr>\<rparr>
      in if sr_status r = Job_completed then handleValidationComplete (Some j) s1 else s1)"

definition pollRejected :: "ApiError \<Rightarrow> Sys \<Rightarrow> Sys" where
  "pollRejected e s = s"

subsection \<open>handleIngestComplete and handleReset\<close>

definition handleIngestComplete :: "IngestResponse \<Rightarrow> bool \<Rightarrow> Sys \<Rightarrow> Sys" where
  "handleIngestComplete result autoValidate s =
     (let s1 = s\<lparr>app := (app s)\<lparr>proposal := Some result, error := None\<rparr>\<rparr>
      in if autoValidate
         then s1\<lparr>validateInFlight := validateInFlight s1 @ [proposal_hash result]\<rparr>
         else s1)"

definition validateResolved :: "ValidateResponse \<Rightarrow> Sys \<Rightarrow> Sys" where
  "validateResolved r s =
     s\<lparr>app := (app s)\<lparr>jobId := Some (vr_job_id r), stage := Stage_validating\<rparr>\<rparr>"

definition validateRejected :: "ApiError \<Rightarrow> Sys \<Rightarrow> Sys" where
  "validateRejected e s =
     s\<lparr>app := (app s)\<lparr>error := Some (orElse (detail e) ''Failed to start validation'')\<rparr>\<rparr>"

definition handleReset :: "Sys \<Rightarrow> Sys" where
  "handleReset s =
     s\<lparr>app := (app s)\<lparr>stage := Stage_input, proposal := None, jobId := None,
                        evidenceBundle := None, ipfsCid := None, error := None,
                        polledProgress := None, polledResponses := []\<rparr>\<rparr>"

subsection \<open>Dispatch of one event\<close>

text \<open>
  A reply is delivered only to a request that is in flight, and takes it out of the
  list.  The stream event is a new return value of the hook; the tick runs the
  \<open>poll\<close> of the registered interval, if there is one.
\<close>

fun dispatch :: "Event \<Rightarrow> Sys \<Rightarrow> Sys" where
  "dispatch (IngestComplete result autoValidate) s = handleIngestComplete result autoValidate s"
| "dispatch (ValidateResolved h r) s =
     (if h \<in> set (validateInFlight s)
      then validateResolved r (s\<lparr>validateInFlight := remove1 h (validateInFlight s)\<rparr>) else s)"
| "dispatch (ValidateRejected h e) s =
     (if h \<in> set (validateInFlight s)
      then validateRejected e (s\<lparr>validateInFlight := remove1 h (validateInFlight s)\<rparr>) else s)"
| "dispatch (StreamRender strm) s = s\<lparr>stream := strm\<rparr>"
| "dispatch IntervalTick s = (case pollInterval s of None \<Rightarrow> s | Some j \<Rightarrow> pollCall j s)"
| "dispatch (GetStatusResolved j r) s =
     (if j \<in> set (getStatusInFlight s)
      then pollResolved j r (s\<lparr>getStatusInFlight := remove1 j (getStatusInFlight s)\<rparr>) else s)"
| "dispatch (GetStatusRejected j e) s =
     (if j \<in> set (getStatusInFlight s)
      then pollRejected e (s\<lparr>getStatusInFlight := remove1 j (getStatusInFlight s)\<rparr>) else s)"
| "dispatch (AggregateResolved j r) s =
     (if j \<in> set (aggregateInFlight s)
      then aggregateResolved r (s\<lparr>aggregateInFlight := remove1 j (aggregateInFlight s)\<rparr>) else s)"
| "dispatch (AggregateRejected j e) s =
     (if j \<in> set (aggregateInFlight s)
      then aggregateRejected e (s\<lparr>aggregateInFlight := remove1 j (aggregateInFlight s)\<rparr>) else s)"
| "dispatch Reset s = handleReset s"

subsection \<open>The two effects\<close>

text \<open>
  The poll effect has the dependencies \<open>[stage, jobId, stream.connected]\<close>.  When one
  of them differs from the previous render, the previous cleanup clears the interval
  and the body runs: it returns early unless the stage is \<open>validating\<close>, the job id is
  truthy and the stream is disconnected; otherwise it registers the interval and calls
  \<open>poll()\<close> at once.
\<close>

definition pollDeps :: "Sys \<Rightarrow> AppStage \<times> string option \<times> bool" where
  "pollDeps s = (stage (app s), jobId (app s), stream_connected (stream s))"

definition pollEffect :: "Sys \<Rightarrow> Sys \<Rightarrow> Sys" where
  "pollEffect prev s =
     (if pollDeps prev = pollDeps s then s
      else
        (let s1 = s\<lparr>pollInterval := None\<rparr> in
         case jobId (app s1) of
           None \<Rightarrow> s1
         | Some j \<Rightarrow>
             if stage (app s1) = Stage_validating \<and> j \<noteq> [] \<and> \<not> stream_connected (stream s1)
             then pollCall j (s1\<lparr>pollInterval := Some j\<rparr>)
             else s1))"

text \<open>
  The completion effect has the dependency \<open>[stream.status]\<close> and closes over the
  stage and the job id of the render it belongs to.
\<close>

definition streamEffect :: "Sys \<Rightarrow> Sys \<Rightarrow> Sys" where
  "streamEffect prev s =
     (if stream_status (stream prev) = stream_status (stream s) then s
      else if stream_status (stream s) = Job_completed \<and> stage (app s) = Stage_validating
      then handleValidationComplete (jobId (app s)) s
      else s)"

text \<open>
  The response map is computed in the body of the render, so the reduce's TypeError is
  thrown by the render itself.
\<close>

definition renderedResponses :: "Sys \<Rightarrow> JsError + (string \<rightharpoonup> MinerResponse list)" where
  "renderedResponses s = minerResponses (stream s) (polledResponses (app s))"

text \<open>
  After a render that returned, React runs the effects whose dependencies changed, in
  the order of their declaration.  The completion effect may set the stage, which is
  one more render: it reads the same responses, so it returns as well; there only the
  poll effect can have a changed dependency, and it sets no state, so two rounds are
  all there are.
\<close>

definition effects :: "Sys \<Rightarrow> Sys \<Rightarrow> Sys" where
  "effects prev s = (let s1 = streamEffect prev (pollEffect prev s) in pollEffect s s1)"

text \<open>
  The unmount runs the cleanup of the poll effect, which clears the interval.
\<close>

definition unmount :: "Sys \<Rightarrow> Sys" where
  "unmount s = s\<lparr>mounted := False, pollInterval := None\<rparr>"

text \<open>
  The render of a new state: when its body throws, no effect of that render runs and
  the component is unmounted; otherwise the effects run.
\<close>

definition commit :: "Sys \<Rightarrow> Sys \<Rightarrow> Sys" where
  "commit prev s =
     (case renderedResponses s of
        Inl err \<Rightarrow> unmount s
      | Inr mr \<Rightarrow> effects prev s)"

text \<open>
  One event.  Unmounted, only the callback runs.  Mounted, React renders when the
  callback changed a state cell or the hook returned a new value; a callback that
  changed neither (a rejected poll, a tick) renders nothing.  (Setting a cell to a new
  array of the same content renders again in React; that render computes what the
  last one computed and changes no dependency, so it is left out.)
\<close>

definition step :: "Event \<Rightarrow> Sys \<Rightarrow> Sys" where
  "step e s =
     (let d = dispatch e s in
      if \<not> mounted s then d
      else if app d = app s \<and> stream d = stream s then d
      else commit s d)"

fun run :: "Event list \<Rightarrow> Sys \<Rightarrow> Sys" where
  "run [] s = s"
| "run (e # es) s = run es (step e s)"

text \<open>What a render of the state shows for a claim.\<close>

definition renderedStatus :: "Sys \<Rightarrow> string \<Rightarrow> JsError + ClaimStatus option" where
  "renderedStatus s cid =
     (case renderedResponses s of
        Inl e \<Rightarrow> Inl e
      | Inr mr \<Rightarrow>
          Inr (getClaimStatuses (proposal (app s)) (stage (app s)) (evidenceBundle (app s)) mr cid))"

section \<open>The EvidencePanel component\<close>

text \<open>
  The five \<open>useState\<close> cells of the panel, the attest calls in flight, the number of
  calls issued and the responses that were delivered.  The props \<open>jobId\<close> and
  \<open>bundle\<close> are fixed while the panel is mounted.
\<close>

record PanelState =
  showJson :: bool
  attestation :: "AttestResponse option"
  attesting :: bool
  ep_error :: "string option"
  ep_ipfsCid :: "string option"

record Panel =
  panel :: PanelState
  attestInFlight :: nat
  attestCalls :: nat
  attestDelivered :: "AttestResponse list"

datatype PanelEvent =
    ClickToggleJson
  | ClickAttest
  | AttestResolved AttestResponse
  | AttestRejected ApiError

definition initPanel :: "string option \<Rightarrow> Panel" where
  "initPanel initialCid =
     \<lparr>panel = \<lparr>showJson = False, attestation = None, attesting = False, ep_error = None,
                ep_ipfsCid = initialCid\<rparr>,
      attestInFlight = 0, attestCalls = 0, attestDelivered = []\<rparr>"

text \<open>The button's \<open>disabled={attesting || !!attestation}\<close>.\<close>

definition attestDisabled :: "PanelState \<Rightarrow> bool" where
  "attestDisabled p = (attesting p \<or> attestation p \<noteq> None)"

text \<open>\<open>handleAttest\<close> up to the \<open>await\<close>, then its \<open>try\<close>, \<open>catch\<close> and \<open>finally\<close>.\<close>

definition handleAttest :: "Panel \<Rightarrow> Panel" where
  "handleAttest s =
     s\<lparr>panel := (panel s)\<lparr>attesting := True, ep_error := None\<rparr>,
       attestInFlight := Suc (attestInFlight s),
       attestCalls := Suc (attestCalls s)\<rparr>"

definition attestResolved :: "AttestResponse \<Rightarrow> Panel \<Rightarrow> Panel" where
  "attestResolved r s =
     s\<lparr>panel := (panel s)\<lparr>attestation := Some r, ep_ipfsCid := at_ipfs_cid r,
                            attesting := False\<rparr>,
       attestDelivered := attestDelivered s @ [r]\<rparr>"

definition attestRejected :: "ApiError \<Rightarrow> Panel \<Rightarrow> Panel" where
  "attestRejected e s =
     s\<lparr>panel := (panel s)\<lparr>ep_error := Some (orElse (detail e) ''Attestation failed''),
                            attesting := False\<rparr>\<rparr>"

text \<open>A disabled button dispatches no click; a reply needs a call in flight.\<close>

fun panelStep :: "PanelEvent \<Rightarrow> Panel \<Rightarrow> Panel" where
  "panelStep ClickToggleJson s = s\<lparr>panel := (panel s)\<lparr>showJson := \<not> showJson (panel s)\<rparr>\<rparr>"
| "panelStep ClickAttest s = (if attestDisabled (panel s) then s else handleAttest s)"
| "panelStep (AttestResolved r) s =
     (if 0 < attestInFlight s
      then attestResolved r (s\<lparr>attestInFlight := attestInFlight s - 1\<rparr>) else s)"
| "panelStep (AttestRejected e) s =
     (if 0 < attestInFlight s
      then attestRejected e (s\<lparr>attestInFlight := attestInFlight s - 1\<rparr>) else s)"

fun panelRun :: "PanelEvent list \<Rightarrow> Panel \<Rightarrow> Panel" where
  "panelRun [] s = s"
| "panelRun (e # es) s = panelRun es (panelStep e s)"

section \<open>App and its EvidencePanel\<close>

text \<open>
  App renders the panel only under \<open>stage === 'complete' && evidenceBundle\<close>, with the
  props \<open>jobId\<close>, \<open>bundle\<close> and \<open>ipfsCid\<close>.  While the condition holds the panel keeps
  its state from render to render; when it fails the panel is unmounted, and when it
  holds again a new panel starts from the initial values of its cells.
\<close>

definition panelShown :: "Sys \<Rightarrow> bool" where
  "panelShown s =
     (mounted s \<and> stage (app s) = Stage_complete \<and> evidenceBundle (app s) \<noteq> None)"

text \<open>
  The page: App, the panel if one is mounted, and the job ids of the attest responses
  that were delivered to a mounted panel, in order (the job id is the panel's prop).
\<close>

record Page =
  pageApp :: Sys
  pagePanel :: "Panel option"
  attestedJobs :: "string list"

datatype PageEvent = AppEvent Event | PanelEvent PanelEvent

definition panelAfterRender :: "Sys \<Rightarrow> Panel option \<Rightarrow> Panel option" where
  "panelAfterRender s q =
     (if panelShown s
      then (case q of None \<Rightarrow> Some (initPanel (ipfsCid (app s))) | Some p \<Rightarrow> Some p)
      else None)"

definition attestedBy :: "PanelEvent \<Rightarrow> Panel \<Rightarrow> string option \<Rightarrow> string list" where
  "attestedBy e p jid =
     (case e of
        AttestResolved r \<Rightarrow>
          (if 0 < attestInFlight p then (case jid of None \<Rightarrow> [] | Some j \<Rightarrow> [j]) else [])
      | _ \<Rightarrow> [])"

fun pageStep :: "PageEvent \<Rightarrow> Page \<Rightarrow> Page" where
  "pageStep (AppEvent e) g =
     (let s = step e (pageApp g)
      in g\<lparr>pageApp := s, pagePanel := panelAfterRender s (pagePanel g)\<rparr>)"
| "pageStep (PanelEvent e) g =
     (case pagePanel g of
        None \<Rightarrow> g
      | Some p \<Rightarrow>
          g\<lparr>pagePanel := Some (panelStep e p),
            attestedJobs := attestedJobs g @ attestedBy e p (jobId (app (pageApp g)))\<rparr>)"

fun pageRun :: "PageEvent list \<Rightarrow> Page \<Rightarrow> Page" where
  "pageRun [] g = g"
| "pageRun (e # es) g = pageRun es (pageStep e g)"

section \<open>The LiveDashboard component: its poll effect\<close>












section \<open>The specification's rules, in its own words\<close>

text \<open>
  Section 3 of the specification derives the status of a claim from the job's stage,
  one of queued, running, completed and failed: completed if the evidence bundle
  contains the claim or the job stage is completed; validating if at least one
  response exists for the claim; else pending.
\<close>

definition spec_claimStatus ::
  "JobStatus \<Rightarrow> EvidenceBundle option \<Rightarrow> (string \<rightharpoonup> MinerResponse list) \<Rightarrow> string \<Rightarrow> ClaimStatus" where
  "spec_claimStatus jobStage bundle mr cid =
     (if (\<exists>b. bundle = Some b \<and> cid \<in> ca_id ` set (eb_claims b)) \<or> jobStage = Job_completed
      then Status_completed
      else if (\<exists>rs. mr cid = Some rs \<and> rs \<noteq> []) then Status_validating
      else Status_pending)"

text \<open>
  The merge key of invariant I2, and what the specification asks of a response map:
  no two entries of one claim come from the same miner.
\<close>

definition mergeKey :: "MinerResponse \<Rightarrow> string \<times> string" where
  "mergeKey r = (claim_id r, miner_id r)"

definition noDuplicateMiner :: "(string \<rightharpoonup> MinerResponse list) \<Rightarrow> string \<Rightarrow> bool" where
  "noDuplicateMiner mr cid = distinct (map miner_id (getOrEmpty mr cid))"

section \<open>Concrete inputs\<close>

definition exClaim :: "string \<Rightarrow> Claim" where
  "exClaim i =
     \<lparr>c_id = i, c_text = ''The treasury holds 5 ETH'', c_paragraph_index = 0,
      c_char_range = (0, 24), c_type = Type_factual,
      c_canonical = \<lparr>numbers = [5], addresses = [], urls = []\<rparr>\<rparr>"

definition exProposal :: IngestResponse where
  "exProposal =
     \<lparr>proposal_hash = ''sha256:ab'', canonical_text = ''The treasury holds 5 ETH'',
      claims = [exClaim ''claim-1'', exClaim ''claim-2'']\<rparr>"

definition exResponse :: MinerResponse where
  "exResponse =
     \<lparr>miner_id = ''miner-4'', claim_id = ''claim-2'', verdict = Verdict_verified,
      rationale = ''matches the ledger'', evidence_links = [], embedding = None,
      scores = \<lparr>accuracy = 1, omission_risk = 0, evidence_quality = 1,
                governance_relevance = 1, composite = 1\<rparr>\<rparr>"

definition exProgress :: JobProgress where
  "exProgress =
     \<lparr>claims_total = 2, claims_validated = 0, miners_contacted = 5, miners_responded = 1\<rparr>"

definition exValidate :: ValidateResponse where
  "exValidate =
     \<lparr>vr_job_id = ''job-1'', vr_proposal_hash = ''sha256:ab'', vr_status = Job_queued,
      vr_created_at = ''t0'', vr_estimated_completion = None\<rparr>"

definition exStatus :: "JobStatus \<Rightarrow> StatusResponse" where
  "exStatus st =
     \<lparr>sr_job_id = ''job-1'', sr_status = st, sr_progress = exProgress,
      partial_results = [exResponse], sr_started_at = None, sr_updated_at = None,
      sr_completed_at = None, ready_for_aggregation = (st = Job_completed)\<rparr>"

definition exStream :: "bool \<Rightarrow> JobStatus \<Rightarrow> StreamState" where
  "exStream c st =
     \<lparr>stream_connected = c, stream_minerResponses = Map.empty,
      stream_progress = exProgress, stream_status = st\<rparr>"

text \<open>An evidence bundle that aggregates \<open>claim-1\<close> only.\<close>

definition exBundle :: EvidenceBundle where
  "exBundle =
     \<lparr>eb_proposal_hash = ''sha256:ab'', eb_job_id = ''job-1'',
      eb_claims =
        [\<lparr>ca_id = ''claim-1'', ca_text = ''The treasury holds 5 ETH'', ca_poi_agreement = 1,
          ca_mode_verdict = ''verified'', ca_embedding_dispersion = 0, ca_pouw_mean = 1,
          ca_pouw_ci_95 = (1, 1), ca_outliers = [],
          ca_final_recommendation = Rec_supported, ca_miner_responses = []\<rparr>],
      eb_overall_poi_agreement = 1, eb_overall_pouw_score = 1, eb_overall_ci_95 = (1, 1),
      eb_critical_flags = [], eb_timestamp = ''t1''\<rparr>"

definition exAggregate :: AggregateResponse where
  "exAggregate = \<lparr>ar_job_id = ''job-1'', evidence_bundle = exBundle, ar_ipfs_cid = None\<rparr>"

definition exError :: ApiError where
  "exError = \<lparr>detail = Some ''upstream unavailable'', message = Some ''Network Error''\<rparr>"

definition exAttest :: AttestResponse where
  "exAttest =
     \<lparr>at_job_id = ''job-1'', at_proposal_hash = ''sha256:ab'', at_ipfs_cid = Some ''bafy1'',
      signature = ''0xsig'', signer = ''0xsigner'', message_hash = ''0xhash'',
      verification_instructions = (''s1'', ''s2'', ''s3'', ''s4'')\<rparr>"

text \<open>
  A job started with the stream down: the ingest result arrives, validation starts,
  and the poll effect issues its first \<open>getStatus\<close>, which stays in flight.
\<close>

definition exStarted :: Sys where
  "exStarted =
     run [IngestComplete exProposal True, ValidateResolved ''sha256:ab'' exValidate]
       (initSys (exStream False Job_queued))"

text \<open>
  The stream connects while that first poll is still in flight; the poll then returns
  a snapshot with one response for \<open>claim-2\<close>.
\<close>

definition exLatePoll :: Sys where
  "exLatePoll =
     run [StreamRender (exStream True Job_running),
          GetStatusResolved ''job-1'' (exStatus Job_running)] exStarted"

text \<open>The stream connects and reports the job completed.\<close>

definition exStreamDone :: Sys where
  "exStreamDone = step (StreamRender (exStream True Job_completed)) exStarted"

text \<open>A response of a given miner for a given claim.\<close>

definition exResponseOf :: "string \<Rightarrow> string \<Rightarrow> MinerResponse" where
  "exResponseOf m c = exResponse\<lparr>miner_id := m, claim_id := c\<rparr>"

text \<open>
  A snapshot of four responses: two miners for \<open>claim-2\<close>, two miners for
  \<open>claim-1\<close>, claims and miners interleaved.
\<close>

definition exSnapshot :: "MinerResponse list" where
  "exSnapshot =
     [exResponseOf ''miner-4'' ''claim-2'', exResponseOf ''miner-4'' ''claim-1'',
      exResponseOf ''miner-5'' ''claim-2'', exResponseOf ''miner-7'' ''claim-1'']"

definition exPoll :: StatusResponse where
  "exPoll = (exStatus Job_running)\<lparr>partial_results := exSnapshot\<rparr>"

text \<open>
  The page of the started job with two polls in flight, and the events that follow:
  the first poll returns \<open>completed\<close>, the aggregate call succeeds, the user attests;
  the second poll returns \<open>completed\<close>, the second aggregate call succeeds, the user
  attests again.
\<close>

definition exTwoPolls :: Sys where
  "exTwoPolls = step IntervalTick exStarted"

definition exPage :: Page where
  "exPage = \<lparr>pageApp = exTwoPolls, pagePanel = None, attestedJobs = []\<rparr>"

definition exFirstAttest :: "PageEvent list" where
  "exFirstAttest =
     [AppEvent (GetStatusResolved ''job-1'' (exStatus Job_completed)),
      AppEvent (AggregateResolved ''job-1'' exAggregate),
      PanelEvent ClickAttest, PanelEvent (AttestResolved exAttest),
      PanelEvent ClickAttest]"

definition exSecondAttest :: "PageEvent list" where
  "exSecondAttest =
     [AppEvent (GetStatusResolved ''job-1'' (exStatus Job_completed)),
      AppEvent (AggregateResolved ''job-1'' exAggregate),
      PanelEvent ClickAttest, PanelEvent (AttestResolved exAttest)]"

text \<open>A poll result whose only response is for a claim named \<open>constructor\<close>.\<close>

definition exBadPoll :: StatusResponse where
  "exBadPoll =
     (exStatus Job_running)\<lparr>partial_results := [exResponseOf ''miner-4'' ''constructor'']\<rparr>"

section \<open>An invariant of the EvidencePanel\<close>

text \<open>
  Without a stored attestation no response was delivered, and a call is in flight
  exactly while \<open>attesting\<close> is set; with a stored attestation that one response was
  delivered, nothing is in flight and \<open>attesting\<close> is cleared.
\<close>

definition panelInv :: "Panel \<Rightarrow> bool" where
  "panelInv s =
     (case attestation (panel s) of
        None \<Rightarrow> attestDelivered s = [] \<and> attestInFlight s = (if attesting (panel s) then 1 else 0)
      | Some a \<Rightarrow> attestDelivered s = [a] \<and> attestInFlight s = 0 \<and> \<not> attesting (panel s))"

section \<open>Unfolding the model on concrete inputs\<close>

lemmas exDefs = exClaim_def exProposal_def exResponse_def exProgress_def exValidate_def
  exStatus_def exStream_def exBundle_def exAggregate_def exError_def exAttest_def

lemmas sysDefs = step_def commit_def effects_def unmount_def renderedResponses_def
  minerResponses_def pollEffect_def streamEffect_def pollDeps_def initSys_def
  initApp_def handleIngestComplete_def validateResolved_def validateRejected_def pollCall_def
  pollResolved_def pollRejected_def handleValidationComplete_def aggregateResolved_def
  aggregateRejected_def handleReset_def Let_def

lemma exStarted_eq:
  "exStarted =
     \<lparr>app = \<lparr>stage = Stage_validating, proposal = Some exProposal, jobId = Some ''job-1'',
              evidenceBundle = None, ipfsCid = None, error = None, polledProgress = None,
              polledResponses = []\<rparr>,
      stream = exStream False Job_queued, mounted = True, pollInterval = Some ''job-1'',
      validateInFlight = [],
      getStatusInFlight = [''job-1''], aggregateInFlight = [], getStatusCalls = [''job-1''],
      aggregateCalls = []\<rparr>"
  by (simp add: exStarted_def sysDefs exProposal_def exValidate_def exStream_def)

section \<open>Effects that leave the state alone\<close>

lemma pollEffect_keeps:
  "app (pollEffect p s) = app s"
  "stream (pollEffect p s) = stream s"
  "mounted (pollEffect p s) = mounted s"
  "aggregateCalls (pollEffect p s) = aggregateCalls s"
  "aggregateInFlight (pollEffect p s) = aggregateInFlight s"
  "validateInFlight (pollEffect p s) = validateInFlight s"
  by (simp_all add: pollEffect_def pollCall_def Let_def split: option.splits)

lemma unmount_keeps:
  "app (unmount s) = app s"
  "stream (unmount s) = stream s"
  "aggregateCalls (unmount s) = aggregateCalls s"
  "getStatusInFlight (unmount s) = getStatusInFlight s"
  by (simp_all add: unmount_def)

lemma pollDeps_pollEffect: "pollDeps (pollEffect p s) = pollDeps s"
  by (simp add: pollDeps_def pollEffect_keeps)

lemma pollEffect_same: "pollDeps p = pollDeps s \<Longrightarrow> pollEffect p s = s"
  by (simp add: pollEffect_def)

lemma streamEffect_same:
  "stream_status (stream p) = stream_status (stream s) \<Longrightarrow> streamEffect p s = s"
  by (simp add: streamEffect_def)

lemma streamEffect_not_completed:
  "stream_status (stream s) \<noteq> Job_completed \<Longrightarrow> streamEffect p s = s"
  by (simp add: streamEffect_def)



lemma effects_quiet:
  assumes "stream_status (stream p) = stream_status (stream s) \<or>
           stream_status (stream s) \<noteq> Job_completed"
  shows "effects p s = pollEffect p s"
proof -
  have "streamEffect p (pollEffect p s) = pollEffect p s"
    using assms by (auto simp: pollEffect_keeps intro: streamEffect_same streamEffect_not_completed)
  moreover have "pollEffect s (pollEffect p s) = pollEffect p s"
    by (rule pollEffect_same) (simp add: pollDeps_pollEffect)
  ultimately show ?thesis by (simp add: effects_def Let_def)
qed

lemmas handlerDefs = handleIngestComplete_def validateResolved_def validateRejected_def
  pollCall_def pollResolved_def pollRejected_def handleValidationComplete_def
  aggregateResolved_def aggregateRejected_def handleReset_def Let_def



lemma dispatch_stream: "\<forall>strm. e \<noteq> StreamRender strm \<Longrightarrow> stream (dispatch e s) = stream s"
  by (cases e) (simp_all add: handlerDefs split: option.splits)

text \<open>
  A step that leaves the hook's value alone ends in the callback's state, in that
  state unmounted, or in that state after the poll effect.
\<close>

lemma step_quiet:
  assumes "stream (dispatch e s) = stream s"
  shows "step e s = dispatch e s \<or> step e s = unmount (dispatch e s) \<or>
         step e s = pollEffect s (dispatch e s)"
proof -
  have "effects s (dispatch e s) = pollEffect s (dispatch e s)"
    by (rule effects_quiet) (simp add: assms)
  then show ?thesis
    by (simp add: step_def commit_def Let_def split: sum.splits)
qed

lemma step_quiet_keeps:
  assumes "stream (dispatch e s) = stream s"
  shows "app (step e s) = app (dispatch e s) \<and> stream (step e s) = stream (dispatch e s)"
  using step_quiet [OF assms] by (auto simp: unmount_keeps pollEffect_keeps)







section \<open>The response map\<close>

lemma groupByClaim_filter:
  "\<forall>r\<in>set rs. claim_id r \<notin> set objectPrototypeKeys \<Longrightarrow>
   groupByClaim rs acc =
     Inr (\<lambda>c. if filter (\<lambda>r. claim_id r = c) rs = [] then acc c
              else Some (getOrEmpty acc c @ filter (\<lambda>r. claim_id r = c) rs))"
proof (induction rs arbitrary: acc)
  case Nil
  then show ?case by simp
next
  case (Cons r rs)
  then show ?case
    by (auto simp: groupStep_def getOrEmpty_def fun_eq_iff)
qed

lemma minerResponses_polled:
  assumes "\<not> stream_connected strm"
    and "\<forall>r\<in>set polled. claim_id r \<notin> set objectPrototypeKeys"
  shows "minerResponses strm polled =
     Inr (\<lambda>c. if filter (\<lambda>r. claim_id r = c) polled = [] then None
              else Some (filter (\<lambda>r. claim_id r = c) polled))"
proof -
  have "\<And>c. getOrEmpty (Map.empty :: string \<rightharpoonup> MinerResponse list) c = []"
    by (simp add: getOrEmpty_def)
  then show ?thesis
    using assms by (simp add: minerResponses_def groupByClaim_filter cong: if_cong)
qed

lemma distinct_key_iff_miner:
  "distinct (map mergeKey rs) =
     (\<forall>c. distinct (map miner_id (filter (\<lambda>r. claim_id r = c) rs)))"
proof (induction rs)
  case Nil
  then show ?case by simp
next
  case (Cons r rs)
  have fresh: "(mergeKey r \<notin> mergeKey ` set rs) =
        (miner_id r \<notin> miner_id ` set (filter (\<lambda>x. claim_id x = claim_id r) rs))"
  proof -
    have "(mergeKey r \<in> mergeKey ` set rs) =
          (\<exists>x\<in>set rs. claim_id r = claim_id x \<and> miner_id r = miner_id x)"
      by (simp add: mergeKey_def image_iff)
    also have "\<dots> = (\<exists>x\<in>set rs. claim_id x = claim_id r \<and> miner_id r = miner_id x)"
      by metis
    also have "\<dots> = (miner_id r \<in> miner_id ` set (filter (\<lambda>x. claim_id x = claim_id r) rs))"
      by (simp add: image_iff Bex_def conj_ac)
    finally show ?thesis by simp
  qed
  have "(\<forall>c. distinct (map miner_id (filter (\<lambda>x. claim_id x = c) (r # rs)))) =
        (miner_id r \<notin> miner_id ` set (filter (\<lambda>x. claim_id x = claim_id r) rs) \<and>
         (\<forall>c. distinct (map miner_id (filter (\<lambda>x. claim_id x = c) rs))))"
    by auto
  then show ?case
    using Cons fresh by simp
qed

lemma step_poll_view:
  assumes "j \<in> set (getStatusInFlight s)"
  shows "renderedResponses (step (GetStatusResolved j r) s) =
           minerResponses (stream s) (partial_results r)"
proof -
  define d where "d = dispatch (GetStatusResolved j r) s"
  have d: "stream d = stream s" "polledResponses (app d) = partial_results r"
    using assms
    by (simp_all add: d_def pollResolved_def handleValidationComplete_def Let_def)
  have "app (step (GetStatusResolved j r) s) = app d \<and> stream (step (GetStatusResolved j r) s) = stream d"
    unfolding d_def by (rule step_quiet_keeps) (fold d_def, rule d(1))
  then show ?thesis
    by (simp add: renderedResponses_def d)
qed

text \<open>
  C2, as the code has it.  While the stream is disconnected, the view after a poll
  result is that result's snapshot grouped by claim id, every element kept in order:
  a claim has an entry exactly when the snapshot has a response for it, and the view
  is free of duplicate miners exactly when no two elements of the snapshot share
  (claim id, miner id).  The result replaces what was stored, so the same result
  delivered a second time gives the same view.
\<close>

theorem polled_view_is_grouped_snapshot:
  assumes "\<not> stream_connected (stream s)"
    and "\<forall>x\<in>set (partial_results r). claim_id x \<notin> set objectPrototypeKeys"
    and "j \<in> set (getStatusInFlight s)"
  shows "\<exists>m. renderedResponses (step (GetStatusResolved j r) s) = Inr m \<and>
           (\<forall>c. getOrEmpty m c = filter (\<lambda>x. claim_id x = c) (partial_results r)) \<and>
           (\<forall>c. (m c = None) = (c \<notin> claim_id ` set (partial_results r))) \<and>
           ((\<forall>c. noDuplicateMiner m c) = distinct (map mergeKey (partial_results r))) \<and>
           (j \<in> set (getStatusInFlight (step (GetStatusResolved j r) s)) \<longrightarrow>
              renderedResponses (step (GetStatusResolved j r) (step (GetStatusResolved j r) s)) =
                Inr m)"
proof -
  define m where
    "m = (\<lambda>c. if filter (\<lambda>x. claim_id x = c) (partial_results r) = [] then None
              else Some (filter (\<lambda>x. claim_id x = c) (partial_results r)))"
  define s1 where "s1 = step (GetStatusResolved j r) s"
  have view: "minerResponses (stream s) (partial_results r) = Inr m"
    unfolding m_def using assms(1,2) by (rule minerResponses_polled)
  have 1: "renderedResponses s1 = Inr m"
    unfolding s1_def by (simp add: step_poll_view [OF assms(3)] view)
  have 2: "\<forall>c. getOrEmpty m c = filter (\<lambda>x. claim_id x = c) (partial_results r)"
    by (simp add: m_def getOrEmpty_def)
  have 3: "\<forall>c. (m c = None) = (c \<notin> claim_id ` set (partial_results r))"
    by (auto simp: m_def filter_empty_conv)
  have 4: "(\<forall>c. noDuplicateMiner m c) = distinct (map mergeKey (partial_results r))"
    by (simp add: noDuplicateMiner_def 2 distinct_key_iff_miner)
  have 5: "renderedResponses (step (GetStatusResolved j r) s1) = Inr m"
    if "j \<in> set (getStatusInFlight s1)"
  proof -
    have q: "stream (dispatch (GetStatusResolved j r) s) = stream s"
      using assms(3) by (simp add: pollResolved_def handleValidationComplete_def Let_def)
    have "stream s1 = stream s"
      unfolding s1_def using step_quiet_keeps [OF q] q by simp
    then show ?thesis
      by (simp add: step_poll_view [OF that] view)
  qed
  from 1 2 3 4 5 show ?thesis unfolding s1_def by blast
qed

text \<open>
  C2, witness: two polls are in flight and both return the snapshot of four
  responses.  The view lists two miners under each claim, in the order of the
  snapshot, and is the same after the second delivery.
\<close>

theorem polled_view_is_grouped_snapshot_witness:
  "\<not> stream_connected (stream exTwoPolls) \<and>
   ''job-1'' \<in> set (getStatusInFlight exTwoPolls) \<and>
   ''job-1'' \<in> set (getStatusInFlight (step (GetStatusResolved ''job-1'' exPoll) exTwoPolls)) \<and>
   distinct (map mergeKey exSnapshot) \<and>
   (\<exists>m. renderedResponses (step (GetStatusResolved ''job-1'' exPoll) exTwoPolls) = Inr m \<and>
        renderedResponses (step (GetStatusResolved ''job-1'' exPoll)
          (step (GetStatusResolved ''job-1'' exPoll) exTwoPolls)) = Inr m \<and>
        getOrEmpty m ''claim-2'' =
          [exResponseOf ''miner-4'' ''claim-2'', exResponseOf ''miner-5'' ''claim-2''] \<and>
        getOrEmpty m ''claim-1'' =
          [exResponseOf ''miner-4'' ''claim-1'', exResponseOf ''miner-7'' ''claim-1''] \<and>
        m ''claim-3'' = None \<and>
        (\<forall>c. noDuplicateMiner m c))"
proof -
  have two: "exTwoPolls = exStarted\<lparr>getStatusInFlight := [''job-1'', ''job-1''],
                                    getStatusCalls := [''job-1'', ''job-1'']\<rparr>"
    by (simp add: exTwoPolls_def exStarted_eq sysDefs)
  have a: "\<not> stream_connected (stream exTwoPolls)"
    "''job-1'' \<in> set (getStatusInFlight exTwoPolls)"
    by (simp_all add: two exStarted_eq exStream_def)
  have b: "''job-1'' \<in> set (getStatusInFlight (step (GetStatusResolved ''job-1'' exPoll) exTwoPolls))"
    by (simp add: two exStarted_eq sysDefs exDefs exPoll_def exSnapshot_def exResponseOf_def
        groupStep_def getOrEmpty_def objectPrototypeKeys_def)
  have snap: "partial_results exPoll = exSnapshot"
    by (simp add: exPoll_def)
  have keys: "\<forall>x\<in>set (partial_results exPoll). claim_id x \<notin> set objectPrototypeKeys"
    by (simp add: snap exSnapshot_def exResponseOf_def objectPrototypeKeys_def)
  have dist: "distinct (map mergeKey exSnapshot)"
    by (simp add: exSnapshot_def exResponseOf_def mergeKey_def)
  from polled_view_is_grouped_snapshot [OF a(1) keys a(2)] b
  obtain m where m:
    "renderedResponses (step (GetStatusResolved ''job-1'' exPoll) exTwoPolls) = Inr m"
    "\<forall>c. getOrEmpty m c = filter (\<lambda>x. claim_id x = c) (partial_results exPoll)"
    "\<forall>c. (m c = None) = (c \<notin> claim_id ` set (partial_results exPoll))"
    "(\<forall>c. noDuplicateMiner m c) = distinct (map mergeKey (partial_results exPoll))"
    "renderedResponses (step (GetStatusResolved ''job-1'' exPoll)
        (step (GetStatusResolved ''job-1'' exPoll) exTwoPolls)) = Inr m"
    by blast
  have c2: "getOrEmpty m ''claim-2'' =
      [exResponseOf ''miner-4'' ''claim-2'', exResponseOf ''miner-5'' ''claim-2'']"
    and c1: "getOrEmpty m ''claim-1'' =
      [exResponseOf ''miner-4'' ''claim-1'', exResponseOf ''miner-7'' ''claim-1'']"
    and c3: "m ''claim-3'' = None"
    by (simp_all add: m(2,3) snap exSnapshot_def exResponseOf_def)
  have nodup: "\<forall>c. noDuplicateMiner m c"
    using m(4) dist by (simp add: snap)
  from a b dist m(1,5) c2 c1 c3 nodup show ?thesis by blast
qed

text \<open>
  C2, counterexample: a poll snapshot that carries the response of \<open>miner-4\<close> for
  \<open>claim-2\<close> twice.  The view holds it twice, and differs from the view of the
  snapshot that carries it once.
\<close>

theorem duplicate_response_counterexample:
  "renderedResponses (run [GetStatusResolved ''job-1''
        ((exStatus Job_running)\<lparr>partial_results := [exResponse, exResponse]\<rparr>)] exStarted)
     = Inr [''claim-2'' \<mapsto> [exResponse, exResponse]] \<and>
   renderedResponses (run [GetStatusResolved ''job-1'' (exStatus Job_running)] exStarted)
     = Inr [''claim-2'' \<mapsto> [exResponse]] \<and>
   \<not> noDuplicateMiner [''claim-2'' \<mapsto> [exResponse, exResponse]] ''claim-2''"
  by (simp add: exStarted_eq sysDefs exDefs renderedResponses_def minerResponses_def
      groupStep_def getOrEmpty_def objectPrototypeKeys_def noDuplicateMiner_def)

text \<open>
  C3, as the code has it.  While the stream is connected the view is the hook's map
  and nothing else; while it is disconnected the view lists, under each claim id, the
  responses of the latest poll snapshot for it, so every polled response appears.
\<close>

theorem view_follows_one_channel:
  assumes "\<forall>x\<in>set polled. claim_id x \<notin> set objectPrototypeKeys"
  shows "(stream_connected strm \<longrightarrow> minerResponses strm polled = Inr (stream_minerResponses strm)) \<and>
         (\<not> stream_connected strm \<longrightarrow>
            (\<exists>m. minerResponses strm polled = Inr m \<and>
                 (\<forall>c. getOrEmpty m c = filter (\<lambda>r. claim_id r = c) polled) \<and>
                 (\<forall>r\<in>set polled. r \<in> set (getOrEmpty m (claim_id r)))))"
proof (cases "stream_connected strm")
  case True
  then show ?thesis by (simp add: minerResponses_def)
next
  case False
  have "\<forall>r\<in>set polled. r \<in> set (filter (\<lambda>x. claim_id x = claim_id r) polled)"
    by simp
  with False show ?thesis
    using assms by (auto simp: minerResponses_polled getOrEmpty_def filter_empty_conv)
qed

text \<open>C3, witness: one polled response, with the stream connected and disconnected.\<close>

theorem view_follows_one_channel_witness:
  "claim_id exResponse \<notin> set objectPrototypeKeys \<and>
   minerResponses (exStream True Job_running) [exResponse] = Inr Map.empty \<and>
   (\<exists>m. minerResponses (exStream False Job_running) [exResponse] = Inr m \<and>
        getOrEmpty m ''claim-2'' = [exResponse])"
proof -
  have keys: "\<forall>x\<in>set [exResponse]. claim_id x \<notin> set objectPrototypeKeys"
    by (simp add: exResponse_def objectPrototypeKeys_def)
  have c: "stream_connected (exStream True Job_running)"
    and d: "\<not> stream_connected (exStream False Job_running)"
    and e: "stream_minerResponses (exStream True Job_running) = Map.empty"
    and f: "claim_id exResponse = ''claim-2''"
    by (simp_all add: exStream_def exResponse_def)
  from view_follows_one_channel [OF keys, of "exStream True Job_running"] c e
  have 1: "minerResponses (exStream True Job_running) [exResponse] = Inr Map.empty" by simp
  from view_follows_one_channel [OF keys, of "exStream False Job_running"] d
  obtain m where m: "minerResponses (exStream False Job_running) [exResponse] = Inr m"
     "\<forall>c. getOrEmpty m c = filter (\<lambda>r. claim_id r = c) [exResponse]" by blast
  from m(2) f have "getOrEmpty m ''claim-2'' = [exResponse]" by simp
  with keys 1 m(1) show ?thesis by auto
qed

text \<open>
  C3, counterexample: the response arrived by polling only, the stream is connected
  and the stage is still \<open>validating\<close>; the rendered map is empty.
\<close>

theorem polled_response_hidden_counterexample:
  "stream_connected (stream exLatePoll) \<and>
   stage (app exLatePoll) = Stage_validating \<and>
   polledResponses (app exLatePoll) = [exResponse] \<and>
   renderedResponses exLatePoll = Inr Map.empty"
  by (simp add: exLatePoll_def exStarted_eq sysDefs exDefs renderedResponses_def minerResponses_def)

section \<open>The status of a claim\<close>

lemma foldl_statuses:
  "foldl (\<lambda>statuses claim. statuses(c_id claim \<mapsto> g (c_id claim))) m0 cs k =
     (if k \<in> c_id ` set cs then Some (g k) else m0 k)"
  by (induction cs arbitrary: m0) auto

lemma find_ids: "(find (\<lambda>c. ca_id c = k) xs = None) = (k \<notin> ca_id ` set xs)"
  by (induction xs) auto

lemma claimStatus_rule:
  "claimStatus stg eb mr k =
     (if stg = Stage_complete \<or> (\<exists>b. eb = Some b \<and> k \<in> ca_id ` set (eb_claims b))
      then Status_completed
      else if (\<exists>rs. mr k = Some rs \<and> rs \<noteq> []) then Status_validating
      else Status_pending)"
proof -
  have inBundle:
    "(case eb of None \<Rightarrow> False | Some b \<Rightarrow> find (\<lambda>c. ca_id c = k) (eb_claims b) \<noteq> None) =
       (\<exists>b. eb = Some b \<and> k \<in> ca_id ` set (eb_claims b))"
    by (cases eb) (simp_all add: find_ids)
  have hasResponse: "(0 < length (getOrEmpty mr k)) = (\<exists>rs. mr k = Some rs \<and> rs \<noteq> [])"
    by (cases "mr k") (simp_all add: getOrEmpty_def)
  show ?thesis
    unfolding claimStatus_def Let_def inBundle hasResponse by (rule refl)
qed

text \<open>
  C4, as the code has it.  For every claim of the ingested proposal the derived
  status is: completed if the stage of the App is \<open>complete\<close> or the stored evidence
  bundle has an entry with the claim's id; otherwise validating if the response map
  holds at least one response for the claim; otherwise pending.
\<close>

theorem claim_status_rule:
  "c \<in> set (claims p) \<Longrightarrow>
   getClaimStatuses (Some p) stg eb mr (c_id c) =
     Some (if stg = Stage_complete \<or> (\<exists>b. eb = Some b \<and> c_id c \<in> ca_id ` set (eb_claims b))
           then Status_completed
           else if (\<exists>rs. mr (c_id c) = Some rs \<and> rs \<noteq> []) then Status_validating
           else Status_pending)"
proof -
  assume c: "c \<in> set (claims p)"
  have "getClaimStatuses (Some p) stg eb mr (c_id c) = Some (claimStatus stg eb mr (c_id c))"
    using c by (simp add: getClaimStatuses_def foldl_statuses)
  then show ?thesis by (simp only: claimStatus_rule)
qed

text \<open>C4, witness: \<open>claim-1\<close> is in the bundle while the stage is \<open>aggregating\<close>.\<close>

theorem claim_status_rule_witness:
  "exClaim ''claim-1'' \<in> set (claims exProposal) \<and>
   getClaimStatuses (Some exProposal) Stage_aggregating (Some exBundle) Map.empty ''claim-1'' =
     Some Status_completed"
  using claim_status_rule
          [of "exClaim ''claim-1''" exProposal Stage_aggregating "Some exBundle" Map.empty]
  by (simp add: exDefs)

text \<open>
  C4, counterexample to the rule read with the job's stage: the stream has reported
  the job completed and the aggregate call is in flight.  The job stage is
  \<open>completed\<close>, the rule of the specification gives completed, the code shows
  \<open>claim-1\<close> as pending.
\<close>

theorem job_completed_claim_pending_counterexample:
  "stream_status (stream exStreamDone) = Job_completed \<and>
   stage (app exStreamDone) = Stage_aggregating \<and>
   renderedStatus exStreamDone ''claim-1'' = Inr (Some Status_pending) \<and>
   spec_claimStatus (stream_status (stream exStreamDone)) (evidenceBundle (app exStreamDone))
     (stream_minerResponses (stream exStreamDone)) ''claim-1'' = Status_completed"
  by (simp add: exStreamDone_def exStarted_eq sysDefs exDefs renderedStatus_def
      renderedResponses_def minerResponses_def getClaimStatuses_def claimStatus_def
      getOrEmpty_def spec_claimStatus_def)

section \<open>Completion signals and the aggregate call\<close>

text \<open>
  C1, the code at the failing input.  The job starts with the stream down, so a poll
  is in flight.  The stream connects and reports the job completed: the completion
  effect issues the aggregate call.  The poll then returns \<open>completed\<close>: its callback
  issues the aggregate call a second time.
\<close>

theorem aggregate_called_twice:
  "aggregateCalls exStreamDone = [''job-1''] \<and>
   aggregateCalls (step (GetStatusResolved ''job-1'' (exStatus Job_completed)) exStreamDone) =
     [''job-1'', ''job-1'']"
  by (simp add: exStreamDone_def exStarted_eq sysDefs exDefs)

text \<open>
  C5, the code at the failing input.  Two polls are in flight; the first returns
  \<open>completed\<close>, the aggregate call succeeds with a bundle that has no entry for
  \<open>claim-2\<close>, and the stage \<open>complete\<close> shows the claim as completed.  The second poll
  then returns \<open>completed\<close>: the stage goes back to \<open>aggregating\<close> and the claim is shown
  as validating.
\<close>

theorem claim_status_regresses:
  "renderedStatus (run [IntervalTick, GetStatusResolved ''job-1'' (exStatus Job_completed),
                        AggregateResolved ''job-1'' exAggregate] exStarted) ''claim-2'' =
     Inr (Some Status_completed) \<and>
   renderedStatus (run [IntervalTick, GetStatusResolved ''job-1'' (exStatus Job_completed),
                        AggregateResolved ''job-1'' exAggregate,
                        GetStatusResolved ''job-1'' (exStatus Job_completed)] exStarted) ''claim-2'' =
     Inr (Some Status_validating)"
  by (simp add: exStarted_eq sysDefs exDefs renderedStatus_def renderedResponses_def
      minerResponses_def getClaimStatuses_def claimStatus_def getOrEmpty_def groupStep_def
      objectPrototypeKeys_def)

section \<open>The poll loop\<close>



text \<open>
  The error path on a concrete input: the first poll of the started job returns a
  response for the claim \<open>constructor\<close>.  The render throws, App is unmounted and the
  interval is cleared, with stage, job id and connectivity as they were.
\<close>

lemma throwing_render_unmounts:
  "mounted exStarted \<and> pollInterval exStarted = Some ''job-1'' \<and>
   renderedResponses (step (GetStatusResolved ''job-1'' exBadPoll) exStarted) = Inl TypeError \<and>
   \<not> mounted (step (GetStatusResolved ''job-1'' exBadPoll) exStarted) \<and>
   pollInterval (step (GetStatusResolved ''job-1'' exBadPoll) exStarted) = None \<and>
   pollDeps (step (GetStatusResolved ''job-1'' exBadPoll) exStarted) = pollDeps exStarted \<and>
   getStatusCalls (step IntervalTick (step (GetStatusResolved ''job-1'' exBadPoll) exStarted)) =
     [''job-1'']"
  by (simp add: exStarted_eq sysDefs exDefs exBadPoll_def exResponseOf_def groupStep_def
      getOrEmpty_def objectPrototypeKeys_def)




section \<open>Failure of the aggregate call\<close>



section \<open>Reset\<close>

text \<open>
  C10, the code at the failing input.  The started job is reset while its first poll
  is in flight: every state cell is back at its initial value.  The poll then returns
  \<open>completed\<close>.  Its callback stores the progress and the responses, sets the stage to
  \<open>aggregating\<close> and issues the aggregate call for the old job id.
\<close>

theorem late_poll_after_reset:
  "app (run [Reset] exStarted) = initApp \<and>
   app (run [Reset, GetStatusResolved ''job-1'' (exStatus Job_completed)] exStarted) =
     initApp\<lparr>stage := Stage_aggregating, polledProgress := Some exProgress,
             polledResponses := [exResponse]\<rparr> \<and>
   aggregateCalls (run [Reset, GetStatusResolved ''job-1'' (exStatus Job_completed)] exStarted) =
     [''job-1'']"
  by (simp add: exStarted_eq sysDefs exDefs groupStep_def getOrEmpty_def objectPrototypeKeys_def)

section \<open>Attestation\<close>

lemmas panelDefs = attestDisabled_def handleAttest_def attestResolved_def attestRejected_def

lemma panelInv_init: "panelInv (initPanel cid)"
  by (simp add: panelInv_def initPanel_def)

lemma panelInv_step: "panelInv s \<Longrightarrow> panelInv (panelStep e s)"
  by (cases e) (auto simp: panelInv_def panelDefs split: option.splits if_splits)

lemma panelInv_run: "panelInv s \<Longrightarrow> panelInv (panelRun es s)"
  by (induction es arbitrary: s) (simp_all add: panelInv_step)

lemma panelInv_bounds:
  assumes "panelInv s"
  shows "attestInFlight s \<le> 1" and "length (attestDelivered s) \<le> 1"
    and "attestDisabled (panel s) = (0 < attestInFlight s \<or> attestDelivered s \<noteq> [])"
  using assms by (auto simp: panelInv_def attestDisabled_def split: option.splits if_splits)

text \<open>
  One mounted panel.  After any sequence of clicks and replies, at most one attest
  call is in flight and at most one attest response has been delivered.  While a call
  is in flight or a response has been delivered, a click on the attest button does
  nothing; otherwise (also after a failed call) a click issues one call.
\<close>

lemma panel_one_outstanding_one_result:
  "attestInFlight (panelRun es (initPanel cid)) \<le> 1 \<and>
   length (attestDelivered (panelRun es (initPanel cid))) \<le> 1 \<and>
   (if 0 < attestInFlight (panelRun es (initPanel cid)) \<or>
       attestDelivered (panelRun es (initPanel cid)) \<noteq> []
    then panelStep ClickAttest (panelRun es (initPanel cid)) = panelRun es (initPanel cid)
    else attestCalls (panelStep ClickAttest (panelRun es (initPanel cid))) =
           Suc (attestCalls (panelRun es (initPanel cid))) \<and>
         attestInFlight (panelStep ClickAttest (panelRun es (initPanel cid))) = 1)"
proof -
  define s where "s = panelRun es (initPanel cid)"
  have inv: "panelInv s"
    unfolding s_def by (rule panelInv_run) (rule panelInv_init)
  note b = panelInv_bounds [OF inv]
  have click: "if 0 < attestInFlight s \<or> attestDelivered s \<noteq> []
    then panelStep ClickAttest s = s
    else attestCalls (panelStep ClickAttest s) = Suc (attestCalls s) \<and>
         attestInFlight (panelStep ClickAttest s) = 1"
    using b by (auto simp: handleAttest_def)
  from b(1,2) click show ?thesis unfolding s_def by blast
qed

text \<open>
  C6, the code at the failing input.  Two polls are in flight.  The first returns
  \<open>completed\<close>, the aggregate call succeeds and the panel is mounted; the user attests,
  the response is delivered, and a further click does nothing.  The second poll then
  returns \<open>completed\<close>: the stage leaves \<open>complete\<close> and the panel is unmounted.  The
  second aggregate call succeeds, a new panel is mounted with no attestation stored,
  and the user attests the same job a second time.
\<close>

theorem attested_twice_for_one_job:
  "attestedJobs (pageRun exFirstAttest exPage) = [''job-1''] \<and>
   map_option attestCalls (pagePanel (pageRun exFirstAttest exPage)) = Some 1 \<and>
   pagePanel (pageRun (exFirstAttest @
       [AppEvent (GetStatusResolved ''job-1'' (exStatus Job_completed))]) exPage) = None \<and>
   map_option panel (pagePanel (pageRun (exFirstAttest @
       [AppEvent (GetStatusResolved ''job-1'' (exStatus Job_completed)),
        AppEvent (AggregateResolved ''job-1'' exAggregate)]) exPage)) =
     Some (panel (initPanel None)) \<and>
   jobId (app (pageApp (pageRun (exFirstAttest @ exSecondAttest) exPage))) = Some ''job-1'' \<and>
   attestedJobs (pageRun (exFirstAttest @ exSecondAttest) exPage) = [''job-1'', ''job-1'']"
proof -
  have two: "exTwoPolls = exStarted\<lparr>getStatusInFlight := [''job-1'', ''job-1''],
                                    getStatusCalls := [''job-1'', ''job-1'']\<rparr>"
    by (simp add: exTwoPolls_def exStarted_eq sysDefs)
  show ?thesis
    by (simp add: exPage_def exFirstAttest_def exSecondAttest_def two exStarted_eq sysDefs exDefs
        groupStep_def getOrEmpty_def objectPrototypeKeys_def panelAfterRender_def panelShown_def
        attestedBy_def initPanel_def panelDefs)
qed

end
